theory Spec2Isabelle
  imports Complex_Main
begin

section \<open>JSON values\<close>

text \<open>
  The values \<open>JSON.parse\<close> produces. A number is a finite double, kept here as the real
  number it denotes; the scripts never compute with it. An object is the list of its own
  entries in the order \<open>Object.entries\<close> returns them; a parsed object never lists a key
  twice. \<open>undefined\<close> is not a JSON value. Strings are lists of characters with codes up
  to 255.
\<close>

datatype json =
    JNull
  | JBool bool
  | JNum real
  | JStr string
  | JArr "json list"
  | JObj "(string \<times> json) list"

fun typeof :: "json \<Rightarrow> string" where
  "typeof JNull = ''object''"
| "typeof (JBool b) = ''boolean''"
| "typeof (JNum n) = ''number''"
| "typeof (JStr s) = ''string''"
| "typeof (JArr xs) = ''object''"
| "typeof (JObj ps) = ''object''"

fun isArray :: "json \<Rightarrow> bool" where
  "isArray (JArr xs) = True"
| "isArray v = False"

text \<open>The characters of a string value; only ever applied under \<open>typeof value = ''string''\<close>.\<close>

fun chars :: "json \<Rightarrow> string" where
  "chars (JStr s) = s"
| "chars v = []"

text \<open>
  \<open>object[key] = v\<close> on a plain object held as the list of its own entries: an existing
  own key keeps its place and takes the new value, a new key is added at the end. The key
  \<open>__proto__\<close> is the exception: when the object has no own property of that name, the
  assignment runs the setter that every plain object inherits from \<open>Object.prototype\<close>,
  which replaces the prototype (for an object or array \<open>v\<close>) or does nothing (for any
  other \<open>v\<close>), and in neither case adds an own property. The prototype is not part of
  the entry list: \<open>Object.entries\<close>, \<open>typeof\<close> and \<open>Array.isArray\<close>, which are all the
  script applies to such an object, do not depend on it.
\<close>

fun assign :: "(string \<times> 'v) list \<Rightarrow> string \<Rightarrow> 'v \<Rightarrow> (string \<times> 'v) list" where
  "assign [] key v = (if key = ''__proto__'' then [] else [(key, v)])"
| "assign ((k, w) # rest) key v =
     (if k = key then (k, v) # rest else (k, w) # assign rest key v)"

section \<open>Strings\<close>

text \<open>
  \<open>String.prototype.trim\<close> removes white space and line terminators from both ends. Among
  the characters up to 255 these are TAB, LF, VT, FF, CR, SPACE and NO-BREAK SPACE.
\<close>

definition isWhiteSpace :: "char \<Rightarrow> bool" where
  "isWhiteSpace c = (of_char c \<in> {9, 10, 11, 12, 13, 32, 160 :: nat})"

definition trim :: "string \<Rightarrow> string" where
  "trim s = rev (dropWhile isWhiteSpace (rev (dropWhile isWhiteSpace s)))"

text \<open>
  \<open>String.prototype.toLowerCase\<close> on characters up to 255: A-Z and the Latin-1 capitals
  (U+00C0 to U+00DE without the multiplication sign U+00D7) move up by 32.
\<close>

definition lowerChar :: "char \<Rightarrow> char" where
  "lowerChar c =
     (let n = (of_char c :: nat)
      in if (65 \<le> n \<and> n \<le> 90) \<or> (192 \<le> n \<and> n \<le> 222 \<and> n \<noteq> 215)
         then char_of (n + 32) else c)"

definition toLowerCase :: "string \<Rightarrow> string" where
  "toLowerCase s = map lowerChar s"

text \<open>A string with no leading and no trailing white space.\<close>

definition trimmed :: "string \<Rightarrow> bool" where
  "trimmed s = (s = [] \<or> (\<not> isWhiteSpace (hd s) \<and> \<not> isWhiteSpace (last s)))"

section \<open>The normalizer\<close>

fun normalizeBoolean :: "json \<Rightarrow> bool" where
  "normalizeBoolean (JBool b) = b"
| "normalizeBoolean (JStr s) =
     (let normalized = trim (toLowerCase s)
      in normalized = ''true'' \<or> normalized = ''yes'' \<or> normalized = ''1'')"
| "normalizeBoolean v = False"

text \<open>
  The arms of the \<open>if\<close> / \<open>else if\<close> chain that \<open>normalizeData\<close> runs on each entry of an
  object, in the order of the source, and the arm a value takes.
\<close>

datatype arm = SkipEmpty | TrimString | BooleanString | Recurse | KeepAsIs

definition dispatch :: "json \<Rightarrow> arm" where
  "dispatch v =
     (if v = JNull \<or> v = JStr [] then SkipEmpty
      else if typeof v = ''string'' then TrimString
      else if typeof v = ''string'' \<and>
              (toLowerCase (chars v) = ''true'' \<or>
               toLowerCase (chars v) = ''false'' \<or>
               toLowerCase (chars v) = ''yes'' \<or>
               toLowerCase (chars v) = ''no'') then BooleanString
      else if typeof v = ''object'' then Recurse
      else KeepAsIs)"

fun normalizeData :: "json \<Rightarrow> json" where
  "normalizeData (JArr items) = JArr (map normalizeData items)"
| "normalizeData (JObj entries) =
     JObj (fold (\<lambda>(key, v) normalized.
             case dispatch v of
               SkipEmpty \<Rightarrow> assign normalized key (JStr [])
             | TrimString \<Rightarrow> assign normalized key (JStr (trim (chars v)))
             | BooleanString \<Rightarrow> assign normalized key (JBool (normalizeBoolean v))
             | Recurse \<Rightarrow> assign normalized key (normalizeData v)
             | KeepAsIs \<Rightarrow> assign normalized key v)
           entries [])"
| "normalizeData v = v"

text \<open>
  The value \<open>normalizeData\<close> stores for an entry, and the own property of an object under
  a key (\<open>None\<close> when the object has no own property of that name).
\<close>

definition entryValue :: "json \<Rightarrow> json" where
  "entryValue v =
     (case dispatch v of
        SkipEmpty \<Rightarrow> JStr []
      | TrimString \<Rightarrow> JStr (trim (chars v))
      | BooleanString \<Rightarrow> JBool (normalizeBoolean v)
      | Recurse \<Rightarrow> normalizeData v
      | KeepAsIs \<Rightarrow> v)"


fun isMapping :: "json \<Rightarrow> bool" where
  "isMapping (JObj entries) = True"
| "isMapping v = False"

text \<open>
  The invariant of a normalized record as the specification words it: no \<open>null\<close> anywhere,
  and every string value without leading or trailing white space.
\<close>

fun NormalizedRecord :: "json \<Rightarrow> bool" where
  "NormalizedRecord JNull = False"
| "NormalizedRecord (JStr s) = trimmed s"
| "NormalizedRecord (JArr items) = list_all NormalizedRecord items"
| "NormalizedRecord (JObj entries) = list_all (\<lambda>(key, v). NormalizedRecord v) entries"
| "NormalizedRecord v = True"

text \<open>
  The same two conditions on the values held under the keys of objects only, at any depth:
  the elements of an array and a value at the top are not constrained themselves.
\<close>

fun fieldsClean :: "json \<Rightarrow> bool" where
  "fieldsClean (JArr items) = list_all fieldsClean items"
| "fieldsClean (JObj entries) =
     list_all (\<lambda>(key, v). v \<noteq> JNull \<and> (typeof v = ''string'' \<longrightarrow> trimmed (chars v)) \<and>
                 fieldsClean v) entries"
| "fieldsClean v = True"

section \<open>Errors and the validator\<close>

text \<open>A thrown JavaScript error: its class and its message.\<close>

datatype js_error = Error string | TypeError string

fun message :: "js_error \<Rightarrow> string" where
  "message (Error m) = m"
| "message (TypeError m) = m"

text \<open>A number inside a template literal: its decimal digits.\<close>

fun showNat :: "nat \<Rightarrow> string" where
  "showNat n =
     (if n < 10 then [''0123456789'' ! n]
      else showNat (n div 10) @ [''0123456789'' ! (n mod 10)])"

declare showNat.simps [simp del]

fun elements :: "json \<Rightarrow> json list" where
  "elements (JArr items) = items"
| "elements v = []"

definition validateData :: "string \<Rightarrow> json \<Rightarrow> js_error + bool" where
  "validateData sheetName data =
     (if \<not> isArray data then Inl (Error (''Data for '' @ sheetName @ '' is not an array''))
      else if length (elements data) = 0 then Inr True
      else
        let invalidItems = filter (\<lambda>item. typeof item \<noteq> ''object'' \<or> item = JNull) (elements data)
        in if length invalidItems > 0
           then Inl (Error (sheetName @ '' contains '' @ showNat (length invalidItems) @
                            '' invalid items''))
           else Inr True)"

section \<open>Configuration\<close>

text \<open>
  \<open>sheets-config.json\<close>: the sheets by name, each a well-formed record, and the optional
  \<open>options\<close> object, whose two switches may be absent or hold any JSON value.
\<close>

record sheetConfig =
  jsonUrl :: string
  outputPath :: string
  description :: string

record syncOptions =
  backupBeforeSync :: "json option"
  validateDataOption :: "json option"

record config =
  sheets :: "(string \<times> sheetConfig) list"
  options :: "syncOptions option"

text \<open>\<open>!value\<close> on a JSON value.\<close>

fun falsy :: "json \<Rightarrow> bool" where
  "falsy JNull = True"
| "falsy (JBool b) = (\<not> b)"
| "falsy (JNum n) = (n = 0)"
| "falsy (JStr s) = (s = [])"
| "falsy v = False"

text \<open>\<open>config.options?.name\<close> as a condition.\<close>

definition enabled :: "config \<Rightarrow> (syncOptions \<Rightarrow> json option) \<Rightarrow> bool" where
  "enabled config name =
     (case options config of
        None \<Rightarrow> False
      | Some opts \<Rightarrow> (case name opts of None \<Rightarrow> False | Some v \<Rightarrow> \<not> falsy v))"

section \<open>The world outside the script\<close>

text \<open>
  What a server answers to a GET: no answer at all (the request emits \<open>error\<close>), or a
  status code, status message, \<open>Location\<close> header and body. The body is kept as what
  \<open>JSON.parse\<close> makes of it: the parser's message or the value.
\<close>

datatype response =
    NoResponse js_error
  | Response nat string string "string + json"

datatype fs_op = Mkdir string | CopyFile string string | WriteFile string string

text \<open>
  The lines written with \<open>console.error\<close>. The progress lines of \<open>console.log\<close> are
  left out.
\<close>

datatype report =
    ErrorFetchingData string
  | ErrorWritingYaml string
  | FailedToSync string string
  | SheetNotFound "string option"
  | AvailableSheets "string list"
  | UrlNotConfigured string
  | PleaseUpdateConfig
  | UnexpectedError js_error

text \<open>
  The collaborators the script calls and does not define: the network, \<open>YAML.stringify\<close>
  with the script's options, \<open>process.cwd\<close>, \<open>path.join\<close>, \<open>path.dirname\<close>, the
  ancestors of a directory, and the operations the operating system refuses (permissions,
  a full disk) with the message of the error it raises.
\<close>

record env =
  http_get :: "string \<Rightarrow> response"
  stringify :: "json \<Rightarrow> string"
  cwd :: string
  path_join :: "string \<Rightarrow> string \<Rightarrow> string"
  path_dirname :: "string \<Rightarrow> string"
  path_ancestors :: "string \<Rightarrow> string list"
  refuses :: "fs_op \<Rightarrow> string option"

text \<open>
  The state a run changes: the files with their contents, the directories, and three logs
  (oldest entry first): the file-system operations carried out, the URLs that
  \<open>fetchSheetData\<close> asked \<open>fetchJson\<close> for, and the lines of \<open>console.error\<close>.
\<close>

record world =
  files :: "string \<rightharpoonup> string"
  dirs :: "string set"
  ops :: "fs_op list"
  requests :: "string list"
  stderr :: "report list"

definition existsSync :: "world \<Rightarrow> string \<Rightarrow> bool" where
  "existsSync w p = (p \<in> dom (files w) \<or> p \<in> dirs w)"

text \<open>\<open>fs.mkdirSync(dir, { recursive: true })\<close>: the directory and its missing ancestors.\<close>

definition mkdirSync :: "env \<Rightarrow> string \<Rightarrow> world \<Rightarrow> world \<times> (js_error + unit)" where
  "mkdirSync env dir w =
     (case refuses env (Mkdir dir) of
        Some m \<Rightarrow> (w, Inl (Error m))
      | None \<Rightarrow>
          if list_ex (\<lambda>p. p \<in> dom (files w)) (dir # path_ancestors env dir)
          then (w, Inl (Error ''ENOTDIR''))
          else (w\<lparr>dirs := dirs w \<union> set (dir # path_ancestors env dir),
                  ops := ops w @ [Mkdir dir]\<rparr>, Inr ()))"

definition copyFileSync :: "env \<Rightarrow> string \<Rightarrow> string \<Rightarrow> world \<Rightarrow> world \<times> (js_error + unit)" where
  "copyFileSync env src dest w =
     (case refuses env (CopyFile src dest) of
        Some m \<Rightarrow> (w, Inl (Error m))
      | None \<Rightarrow>
          (case files w src of
             None \<Rightarrow> (w, Inl (Error ''ENOENT''))
           | Some content \<Rightarrow>
               if dest \<in> dirs w then (w, Inl (Error ''EISDIR''))
               else (w\<lparr>files := (files w)(dest \<mapsto> content),
                       ops := ops w @ [CopyFile src dest]\<rparr>, Inr ())))"

definition writeFileSync :: "env \<Rightarrow> string \<Rightarrow> string \<Rightarrow> world \<Rightarrow> world \<times> (js_error + unit)" where
  "writeFileSync env file content w =
     (case refuses env (WriteFile file content) of
        Some m \<Rightarrow> (w, Inl (Error m))
      | None \<Rightarrow>
          if file \<in> dirs w then (w, Inl (Error ''EISDIR''))
          else if path_dirname env file \<notin> dirs w then (w, Inl (Error ''ENOENT''))
          else (w\<lparr>files := (files w)(file \<mapsto> content),
                  ops := ops w @ [WriteFile file content]\<rparr>, Inr ()))"

text \<open>Statements in sequence: the next one runs unless the one before threw.\<close>

definition andThen ::
  "world \<times> (js_error + 'a) \<Rightarrow> ('a \<Rightarrow> world \<Rightarrow> world \<times> (js_error + 'b)) \<Rightarrow> world \<times> (js_error + 'b)" where
  "andThen r f = (case r of (w, Inl e) \<Rightarrow> (w, Inl e) | (w, Inr x) \<Rightarrow> f x w)"

section \<open>The YAML writer\<close>

definition writeYamlFile ::
  "config \<Rightarrow> env \<Rightarrow> json \<Rightarrow> string \<Rightarrow> world \<Rightarrow> world \<times> (js_error + bool)" where
  "writeYamlFile config env data outPath w =
     (let fullPath = path_join env (cwd env) outPath;
          dir = path_dirname env fullPath;
          backupPath = fullPath @ ''.backup'';
          attempt =
            andThen (if \<not> existsSync w dir then mkdirSync env dir w else (w, Inr ())) (\<lambda>_ w1.
            andThen (if existsSync w1 fullPath \<and> enabled config backupBeforeSync
                     then copyFileSync env fullPath backupPath w1 else (w1, Inr ())) (\<lambda>_ w2.
            andThen (writeFileSync env fullPath (stringify env data) w2) (\<lambda>_ w3.
            (w3, Inr True))))
      in case attempt of
           (w', Inl err) \<Rightarrow> (w'\<lparr>stderr := stderr w' @ [ErrorWritingYaml (message err)]\<rparr>, Inl err)
         | (w', Inr written) \<Rightarrow> (w', Inr written))"

section \<open>Fetching\<close>

text \<open>
  \<open>fetchJson\<close> follows every 301 and 302 with no bound on the hops, so it need not settle:
  \<open>None\<close> is the promise that never does. \<open>Inl\<close> is a rejected promise, \<open>Inr\<close> a resolved
  one.
\<close>

partial_function (option) fetchJson :: "(string \<Rightarrow> response) \<Rightarrow> string \<Rightarrow> (js_error + json) option" where
  "fetchJson get url =
     (case get url of
        NoResponse err \<Rightarrow> Some (Inl err)
      | Response statusCode statusMessage location body \<Rightarrow>
          if statusCode = 302 \<or> statusCode = 301 then fetchJson get location
          else if statusCode \<noteq> 200
          then Some (Inl (Error (''HTTP '' @ showNat statusCode @ '': '' @ statusMessage)))
          else (case body of
                  Inl parserMessage \<Rightarrow> Some (Inl (Error (''Invalid JSON: '' @ parserMessage)))
                | Inr json \<Rightarrow> Some (Inr json)))"

declare fetchJson.simps [code]

definition fetchSheetData ::
  "env \<Rightarrow> sheetConfig \<Rightarrow> world \<Rightarrow> (world \<times> (js_error + json)) option" where
  "fetchSheetData env sheetConfig w =
     (case fetchJson (http_get env) (jsonUrl sheetConfig) of
        None \<Rightarrow> None
      | Some settled \<Rightarrow>
          let w1 = w\<lparr>requests := requests w @ [jsonUrl sheetConfig]\<rparr>
          in (case settled of
                Inl err \<Rightarrow>
                  Some (w1\<lparr>stderr := stderr w1 @ [ErrorFetchingData (message err)]\<rparr>, Inl err)
              | Inr data \<Rightarrow>
                  if falsy data \<or> (isArray data \<and> length (elements data) = 0)
                  then Some (w1, Inr (JArr []))
                  else Some (w1, Inr data)))"

section \<open>One sheet\<close>

text \<open>\<open>{ success: true, count }\<close> and \<open>{ success: false, error }\<close>.\<close>

datatype syncResult = Synced (count: nat) | Failed (error: string)

fun success :: "syncResult \<Rightarrow> bool" where
  "success (Synced n) = True"
| "success (Failed m) = False"

text \<open>
  What \<open>config.sheets[name]\<close> can be: \<open>undefined\<close>, the record configured under the name,
  or, for a name that is not configured but that every object inherits from
  \<open>Object.prototype\<close>, the inherited member (a function, or \<open>Object.prototype\<close> itself for
  \<open>__proto__\<close>), on which \<open>jsonUrl\<close>, \<open>outputPath\<close> and \<open>description\<close> are
  \<open>undefined\<close>.
\<close>

datatype sheetEntry = Undefined | Configured sheetConfig | Inherited

definition inheritedNames :: "string list" where
  "inheritedNames =
     [''constructor'', ''hasOwnProperty'', ''isPrototypeOf'', ''propertyIsEnumerable'',
      ''toLocaleString'', ''toString'', ''valueOf'', ''__proto__'', ''__defineGetter__'',
      ''__defineSetter__'', ''__lookupGetter__'', ''__lookupSetter__'']"

definition sheetNamed :: "config \<Rightarrow> string \<Rightarrow> sheetEntry" where
  "sheetNamed config name =
     (case map_of (sheets config) name of
        Some sheetConfig \<Rightarrow> Configured sheetConfig
      | None \<Rightarrow> if name \<in> set inheritedNames then Inherited else Undefined)"

text \<open>
  The two \<open>console.log\<close> lines before the \<open>try\<close> read \<open>sheetConfig.description\<close>; with
  \<open>sheetConfig\<close> undefined that read throws outside the \<open>try\<close>. On an inherited member
  the read gives \<open>undefined\<close>, and so does \<open>jsonUrl\<close>: \<open>fetchJson(undefined)\<close> rejects
  with the \<open>TypeError\<close> of \<open>url.startsWith\<close> before any request, which both
  \<open>catch\<close> blocks report.
\<close>

definition syncSheet ::
  "config \<Rightarrow> env \<Rightarrow> string \<Rightarrow> sheetEntry \<Rightarrow> world \<Rightarrow> (world \<times> (js_error + syncResult)) option" where
  "syncSheet config env sheetName entry w =
     (case entry of
        Undefined \<Rightarrow>
          Some (w, Inl (TypeError ''Cannot read properties of undefined (reading 'description')''))
      | Inherited \<Rightarrow>
          Some (w\<lparr>stderr := stderr w @
                  [ErrorFetchingData ''Cannot read properties of undefined (reading 'startsWith')'',
                   FailedToSync sheetName
                     ''Cannot read properties of undefined (reading 'startsWith')'']\<rparr>,
                Inr (Failed ''Cannot read properties of undefined (reading 'startsWith')''))
      | Configured sheetConfig \<Rightarrow>
          (case fetchSheetData env sheetConfig w of
             None \<Rightarrow> None
           | Some fetched \<Rightarrow>
               let attempt =
                     andThen fetched (\<lambda>rawData w1.
                     let normalizedData = normalizeData rawData
                     in andThen (w1, if enabled config validateDataOption
                                     then validateData sheetName normalizedData else Inr True) (\<lambda>_ w2.
                        andThen (writeYamlFile config env normalizedData (outputPath sheetConfig) w2) (\<lambda>_ w3.
                        (w3, Inr (Synced (if isArray normalizedData
                                          then length (elements normalizedData) else 1))))))
               in (case attempt of
                     (w', Inl err) \<Rightarrow>
                       Some (w'\<lparr>stderr := stderr w' @ [FailedToSync sheetName (message err)]\<rparr>,
                             Inr (Failed (message err)))
                   | (w', Inr result) \<Rightarrow> Some (w', Inr result))))"

section \<open>The orchestrator\<close>

text \<open>\<open>String.prototype.includes\<close>.\<close>

fun includes_str :: "string \<Rightarrow> string \<Rightarrow> bool" where
  "includes_str [] t = (t = [])"
| "includes_str (c # cs) t = (take (length t) (c # cs) = t \<or> includes_str cs t)"

text \<open>
  The sheets of this run, as \<open>Object.entries\<close> lists them. With a name on the command line
  it is the one-entry object \<open>{ [targetSheet]: config.sheets[targetSheet] }\<close> (a computed
  key is an own property whatever the name). An absent or empty argument is falsy.
\<close>

definition sheetsToSync :: "config \<Rightarrow> string option \<Rightarrow> (string \<times> sheetEntry) list" where
  "sheetsToSync config targetSheet =
     (case targetSheet of
        None \<Rightarrow> map (\<lambda>(name, sheetConfig). (name, Configured sheetConfig)) (sheets config)
      | Some target \<Rightarrow>
          if target = []
          then map (\<lambda>(name, sheetConfig). (name, Configured sheetConfig)) (sheets config)
          else [(target, sheetNamed config target)])"

text \<open>
  The loop that checks the URLs: \<open>Inr (Some code)\<close> is \<open>process.exit(code)\<close>, \<open>Inr None\<close>
  the end of the loop, \<open>Inl\<close> the error thrown by reading \<open>jsonUrl\<close> of \<open>undefined\<close>. An
  inherited member has no \<open>jsonUrl\<close>, which is falsy.
\<close>

fun checkUrls :: "(string \<times> sheetEntry) list \<Rightarrow> world \<Rightarrow> world \<times> (js_error + nat option)" where
  "checkUrls [] w = (w, Inr None)"
| "checkUrls ((name, Undefined) # rest) w =
     (w, Inl (TypeError ''Cannot read properties of undefined (reading 'jsonUrl')''))"
| "checkUrls ((name, Inherited) # rest) w =
     (w\<lparr>stderr := stderr w @ [UrlNotConfigured name, PleaseUpdateConfig]\<rparr>, Inr (Some 1))"
| "checkUrls ((name, Configured sheetConfig) # rest) w =
     (if jsonUrl sheetConfig = [] \<or> includes_str (jsonUrl sheetConfig) ''YOUR_''
      then (w\<lparr>stderr := stderr w @ [UrlNotConfigured name, PleaseUpdateConfig]\<rparr>, Inr (Some 1))
      else checkUrls rest w)"

text \<open>The loop that syncs each sheet and stores \<open>results[sheetName]\<close>.\<close>

fun syncSheets ::
  "config \<Rightarrow> env \<Rightarrow> (string \<times> sheetEntry) list \<Rightarrow> (string \<times> syncResult) list \<Rightarrow> world
     \<Rightarrow> (world \<times> (js_error + (string \<times> syncResult) list)) option" where
  "syncSheets config env [] results w = Some (w, Inr results)"
| "syncSheets config env ((sheetName, entry) # rest) results w =
     (case syncSheet config env sheetName entry w of
        None \<Rightarrow> None
      | Some (w', Inl err) \<Rightarrow> Some (w', Inl err)
      | Some (w', Inr result) \<Rightarrow> syncSheets config env rest (assign results sheetName result) w')"

text \<open>The summary loop: \<open>(totalSuccess, totalFailed, totalRecords)\<close>.\<close>

fun tally :: "(string \<times> syncResult) list \<Rightarrow> nat \<times> nat \<times> nat \<Rightarrow> nat \<times> nat \<times> nat" where
  "tally [] totals = totals"
| "tally ((sheetName, result) # rest) (totalSuccess, totalFailed, totalRecords) =
     (if success result
      then tally rest (totalSuccess + 1, totalFailed, totalRecords + count result)
      else tally rest (totalSuccess, totalFailed + 1, totalRecords))"

text \<open>
  \<open>main\<close>: \<open>Inr code\<close> is \<open>process.exit(code)\<close>, \<open>Inl\<close> the rejection of the promise that
  \<open>main()\<close> returns, \<open>None\<close> a run that waits for ever on a request.
\<close>

definition main :: "config \<Rightarrow> env \<Rightarrow> string option \<Rightarrow> world \<Rightarrow> (world \<times> (js_error + nat)) option" where
  "main config env targetSheet w =
     (let toSync = sheetsToSync config targetSheet
      in if length (map fst toSync) = 0
         then Some (w\<lparr>stderr := stderr w @ [SheetNotFound targetSheet,
                                              AvailableSheets (map fst (sheets config))]\<rparr>, Inr 1)
         else (case checkUrls toSync w of
                 (w1, Inl err) \<Rightarrow> Some (w1, Inl err)
               | (w1, Inr (Some code)) \<Rightarrow> Some (w1, Inr code)
               | (w1, Inr None) \<Rightarrow>
                   (case syncSheets config env toSync [] w1 of
                      None \<Rightarrow> None
                    | Some (w2, Inl err) \<Rightarrow> Some (w2, Inl err)
                    | Some (w2, Inr results) \<Rightarrow>
                        (case tally results (0, 0, 0) of
                           (totalSuccess, totalFailed, totalRecords) \<Rightarrow>
                             if totalFailed > 0 then Some (w2, Inr 1) else Some (w2, Inr 0)))))"

text \<open>The last statement of the script, \<open>main().catch(...)\<close>: the exit code of the process.\<close>

definition runScript :: "config \<Rightarrow> env \<Rightarrow> string option \<Rightarrow> world \<Rightarrow> (world \<times> nat) option" where
  "runScript config env targetSheet w =
     (case main config env targetSheet w of
        None \<Rightarrow> None
      | Some (w', Inl err) \<Rightarrow> Some (w'\<lparr>stderr := stderr w' @ [UnexpectedError err]\<rparr>, 1)
      | Some (w', Inr code) \<Rightarrow> Some (w', code))"

section \<open>A sample installation\<close>

text \<open>
  Two sheets under \<open>/site\<close>. The board sheet answers with a redirect to a JSON array of
  one record, the events sheet with 404. The file for the board exists already.
  \<open>sampleYaml\<close> stands in for the YAML serializer, \<open>posix_dirname\<close> and
  \<open>posix_ancestors\<close> for Node's path functions on paths that are already normal.
\<close>

definition boardSheet :: sheetConfig where
  "boardSheet = \<lparr>jsonUrl = ''https://sheets.example/board'',
                  outputPath = ''data/board/members.yaml'',
                  description = ''Board members data''\<rparr>"

definition eventsSheet :: sheetConfig where
  "eventsSheet = \<lparr>jsonUrl = ''https://sheets.example/events'',
                   outputPath = ''data/events/upcoming.yaml'',
                   description = ''Upcoming PTSA events''\<rparr>"

definition sampleConfig :: config where
  "sampleConfig = \<lparr>sheets = [(''board'', boardSheet), (''events'', eventsSheet)],
                    options = Some \<lparr>backupBeforeSync = Some (JBool True),
                                    validateDataOption = Some (JBool True)\<rparr>\<rparr>"


text \<open>The same sheets with no \<open>options\<close> object at all.\<close>

definition plainConfig :: config where
  "plainConfig = \<lparr>sheets = [(''board'', boardSheet), (''events'', eventsSheet)], options = None\<rparr>"

definition boardRows :: json where
  "boardRows = JArr [JObj [(''name'', JStr ''  Jane  ''), (''elected'', JStr ''true'')]]"

definition sampleGet :: "string \<Rightarrow> response" where
  "sampleGet url =
     (if url = ''https://sheets.example/board''
      then Response 302 ''Found'' ''https://cdn.example/board.json'' (Inl ''Unexpected end of JSON input'')
      else if url = ''https://cdn.example/board.json''
      then Response 200 ''OK'' [] (Inr boardRows)
      else Response 404 ''Not Found'' [] (Inl ''Unexpected token < in JSON at position 0''))"

text \<open>A server that answers every request with the JSON text \<open>null\<close>.\<close>

definition nullGet :: "string \<Rightarrow> response" where
  "nullGet url = Response 200 ''OK'' [] (Inr JNull)"

definition sampleYaml :: "json \<Rightarrow> string" where
  "sampleYaml data = ''# '' @ showNat (length (elements data)) @ '' record(s)''"

definition posix_dirname :: "string \<Rightarrow> string" where
  "posix_dirname p = rev (drop 1 (dropWhile (\<lambda>c. c \<noteq> CHR ''/'') (rev p)))"

fun posix_ancestors :: "string \<Rightarrow> string list" where
  "posix_ancestors p =
     (if posix_dirname p = [] \<or> length p \<le> length (posix_dirname p) then []
      else posix_dirname p # posix_ancestors (posix_dirname p))"

declare posix_ancestors.simps [simp del]

definition sampleEnv :: env where
  "sampleEnv = \<lparr>http_get = sampleGet,
                 stringify = sampleYaml,
                 cwd = ''/site'',
                 path_join = (\<lambda>a b. a @ ''/'' @ b),
                 path_dirname = posix_dirname,
                 path_ancestors = posix_ancestors,
                 refuses = (\<lambda>operation. None)\<rparr>"

definition nullEnv :: env where
  "nullEnv = sampleEnv\<lparr>http_get := nullGet\<rparr>"

text \<open>A server that answers every request with one JSON object instead of an array.\<close>

definition objectGet :: "string \<Rightarrow> response" where
  "objectGet url = Response 200 ''OK'' [] (Inr (JObj [(''title'', JStr '' PTSA '')]))"

definition objectEnv :: env where
  "objectEnv = sampleEnv\<lparr>http_get := objectGet\<rparr>"

definition sampleWorld :: world where
  "sampleWorld = \<lparr>files = map_of [(''/site/data/board/members.yaml'', ''# 0 record(s)'')],
                   dirs = {''/site'', ''/site/data'', ''/site/data/board''},
                   ops = [],
                   requests = [],
                   stderr = []\<rparr>"

section \<open>Properties of strings and of assignment\<close>

lemma normalizeData_JObj:
  "normalizeData (JObj entries) =
     JObj (fold (\<lambda>(key, v) normalized. assign normalized key (entryValue v)) entries [])"
proof -
  have "(\<lambda>(key, v) normalized.
             case dispatch v of
               SkipEmpty \<Rightarrow> assign normalized key (JStr [])
             | TrimString \<Rightarrow> assign normalized key (JStr (trim (chars v)))
             | BooleanString \<Rightarrow> assign normalized key (JBool (normalizeBoolean v))
             | Recurse \<Rightarrow> assign normalized key (normalizeData v)
             | KeepAsIs \<Rightarrow> assign normalized key v)
       = (\<lambda>(key, v) normalized. assign normalized key (entryValue v))"
    by (auto simp: fun_eq_iff entryValue_def split: arm.splits)
  then show ?thesis by simp
qed

lemma trim_prefix: "\<exists>u. dropWhile isWhiteSpace s = trim s @ u"
proof -
  let ?t = "dropWhile isWhiteSpace s"
  have "?t = rev (takeWhile isWhiteSpace (rev ?t) @ dropWhile isWhiteSpace (rev ?t))"
    by simp
  also have "\<dots> = rev (dropWhile isWhiteSpace (rev ?t)) @ rev (takeWhile isWhiteSpace (rev ?t))"
    by (rule rev_append)
  finally have "?t = trim s @ rev (takeWhile isWhiteSpace (rev ?t))"
    by (simp only: trim_def)
  then show ?thesis by blast
qed

lemma trimmed_trim: "trimmed (trim s)"
proof (cases "trim s = []")
  case True
  then show ?thesis by (simp add: trimmed_def)
next
  case False
  obtain u where u: "dropWhile isWhiteSpace s = trim s @ u" using trim_prefix by blast
  with False have ne: "dropWhile isWhiteSpace s \<noteq> []" by auto
  have "hd (trim s) = hd (dropWhile isWhiteSpace s)" using u False by (metis hd_append2)
  then have h: "\<not> isWhiteSpace (hd (trim s))" using hd_dropWhile [OF ne] by simp
  from False have ne2: "dropWhile isWhiteSpace (rev (dropWhile isWhiteSpace s)) \<noteq> []"
    by (simp add: trim_def)
  have "last (trim s) = hd (dropWhile isWhiteSpace (rev (dropWhile isWhiteSpace s)))"
    using ne2 by (simp add: trim_def last_rev)
  then have l: "\<not> isWhiteSpace (last (trim s))" using hd_dropWhile [OF ne2] by simp
  from h l show ?thesis by (simp add: trimmed_def)
qed




lemma dispatch_cases:
  "dispatch JNull = SkipEmpty"
  "dispatch (JStr s) = (if s = [] then SkipEmpty else TrimString)"
  "dispatch (JBool b) = KeepAsIs"
  "dispatch (JNum n) = KeepAsIs"
  "dispatch (JArr items) = Recurse"
  "dispatch (JObj entries) = Recurse"
  by (simp_all add: dispatch_def)

lemma entryValue_cases:
  "entryValue JNull = JStr []"
  "entryValue (JStr s) = JStr (trim s)"
  "entryValue (JBool b) = JBool b"
  "entryValue (JNum n) = JNum n"
  "entryValue (JArr items) = normalizeData (JArr items)"
  "entryValue (JObj entries) = normalizeData (JObj entries)"
  by (simp_all add: entryValue_def dispatch_cases trim_def)





lemma set_assign: "set (assign acc key v) \<subseteq> insert (key, v) (set acc)"
  by (induction acc key v rule: assign.induct) auto



lemma fold_assign_members:
  "(k, w) \<in> set (fold (\<lambda>(key, v) normalized. assign normalized key (f v)) entries acc) \<Longrightarrow>
   (k, w) \<in> set acc \<or> (\<exists>v. (k, v) \<in> set entries \<and> w = f v)"
proof (induction entries arbitrary: acc)
  case Nil
  then show ?case by simp
next
  case (Cons e entries)
  obtain key v where e: "e = (key, v)" by (cases e)
  from Cons.prems e
  have "(k, w) \<in> set (assign acc key (f v)) \<or> (\<exists>v. (k, v) \<in> set entries \<and> w = f v)"
    using Cons.IH [of "assign acc key (f v)"] by simp
  then show ?case using set_assign [of acc key "f v"] e by auto
qed


declare normalizeData.simps(2) [simp del]

lemma trimmed_Nil: "trimmed []"
  by (simp add: trimmed_def)




lemma entryValue_not_null: "entryValue v \<noteq> JNull"
  by (cases v) (simp_all add: entryValue_cases normalizeData_JObj)

lemma entryValue_string: "typeof (entryValue v) = ''string'' \<Longrightarrow> trimmed (chars (entryValue v))"
  by (cases v) (simp_all add: entryValue_cases trimmed_trim normalizeData_JObj trimmed_Nil)


lemma fieldsClean_entryValue:
  assumes "dispatch v = Recurse \<Longrightarrow> fieldsClean (normalizeData v)"
  shows "fieldsClean (entryValue v)"
  using assms by (cases v) (simp_all add: entryValue_cases dispatch_cases)

section \<open>The normalizer: dispatch order, invariant, idempotence\<close>




text \<open>
  C2, as the specification states it, fails: \<open>normalizeData\<close> hands the elements of an
  array to itself, and a scalar handed to it comes back as it is, so a \<open>null\<close> and an
  untrimmed string inside an array stay.
\<close>

theorem NormalizedRecord_counterexample:
  "\<not> NormalizedRecord (normalizeData (JArr [JNull, JStr '' a'']))"
  by (simp add: trimmed_def isWhiteSpace_def)

text \<open>
  C2, amended. For every JSON value, in the output of \<open>normalizeData\<close> every value held
  under a key of an object, at any depth, is not \<open>null\<close> and, when it is a string, has no
  leading or trailing white space.
\<close>

theorem normalizeData_fieldsClean: "fieldsClean (normalizeData x)"
proof (induction x rule: normalizeData.induct)
  case (1 items)
  then show ?case by (simp add: list_all_iff)
next
  case (2 entries)
  let ?r = "fold (\<lambda>(key, v) normalized. assign normalized key (entryValue v)) entries []"
  have r: "normalizeData (JObj entries) = JObj ?r" by (rule normalizeData_JObj)
  have ok: "w \<noteq> JNull \<and> (typeof w = ''string'' \<longrightarrow> trimmed (chars w)) \<and> fieldsClean w"
    if "(k, w) \<in> set ?r" for k w
  proof -
    from fold_assign_members [OF that] obtain v where v: "(k, v) \<in> set entries" "w = entryValue v"
      by auto
    have "fieldsClean (entryValue v)"
      by (rule fieldsClean_entryValue) (rule "2.IH" [OF v(1) refl])
    with v(2) show ?thesis by (simp add: entryValue_not_null entryValue_string)
  qed
  have "fieldsClean (JObj ?r)" using ok by (auto simp: list_all_iff)
  then show ?case by (simp only: r)
qed simp_all

theorem normalizeData_fieldsClean_witness:
  "fieldsClean (normalizeData (JArr [JObj [(''name'', JStr ''  Jane  ''), (''photo'', JNull),
      (''tags'', JArr [JNull, JStr '' a''])]])) \<and>
   normalizeData (JArr [JObj [(''name'', JStr ''  Jane  ''), (''photo'', JNull),
      (''tags'', JArr [JNull, JStr '' a''])]])
     = JArr [JObj [(''name'', JStr ''Jane''), (''photo'', JStr []),
          (''tags'', JArr [JNull, JStr '' a''])]]"
  using normalizeData_fieldsClean
          [of "JArr [JObj [(''name'', JStr ''  Jane  ''), (''photo'', JNull),
                 (''tags'', JArr [JNull, JStr '' a''])]]"]
  by (simp add: normalizeData_JObj entryValue_cases trim_def isWhiteSpace_def)



section \<open>The validator\<close>

lemma invalid_item_iff:
  "(typeof item \<noteq> ''object'' \<or> item = JNull) = (\<not> (isMapping item \<or> isArray item))"
  by (cases item) simp_all

lemma invalidItems_eq:
  "filter (\<lambda>item. typeof item \<noteq> ''object'' \<or> item = JNull) items =
   filter (\<lambda>item. \<not> (isMapping item \<or> isArray item)) items"
  by (rule filter_cong [OF refl]) (rule invalid_item_iff)

lemma validateData_JArr:
  "validateData sheetName (JArr items) =
     (if length items = 0 then Inr True
      else if length (filter (\<lambda>item. \<not> (isMapping item \<or> isArray item)) items) > 0
           then Inl (Error (sheetName @ '' contains '' @
                      showNat (length (filter (\<lambda>item. \<not> (isMapping item \<or> isArray item)) items)) @
                      '' invalid items''))
           else Inr True)"
  unfolding validateData_def Let_def elements.simps invalidItems_eq by simp

lemma validateData_mappings:
  "\<forall>item\<in>set items. isMapping item \<Longrightarrow> validateData sheetName (JArr items) = Inr True"
  by (simp add: validateData_JArr filter_empty_conv)

text \<open>
  C3, amended. On an array, \<open>validateData\<close> counts as invalid the elements that are
  neither a mapping nor an array (\<open>null\<close>, strings, numbers, booleans): if there is one,
  it throws an error whose message carries how many there are; if there is none, or the
  array is empty, it returns \<open>true\<close>.
\<close>

theorem validateData_array:
  "validateData sheetName (JArr items) =
     (if \<exists>item\<in>set items. \<not> (isMapping item \<or> isArray item)
      then Inl (Error (sheetName @ '' contains '' @
                 showNat (length (filter (\<lambda>item. \<not> (isMapping item \<or> isArray item)) items)) @
                 '' invalid items''))
      else Inr True)"
proof -
  let ?bad = "filter (\<lambda>item. \<not> (isMapping item \<or> isArray item)) items"
  have v: "validateData sheetName (JArr items) =
     (if length items = 0 then Inr True
      else if length ?bad > 0
           then Inl (Error (sheetName @ '' contains '' @ showNat (length ?bad) @ '' invalid items''))
           else Inr True)"
    by (rule validateData_JArr)
  show ?thesis
  proof (cases "\<exists>item\<in>set items. \<not> (isMapping item \<or> isArray item)")
    case True
    then have "?bad \<noteq> []" by (simp add: filter_empty_conv)
    moreover from True have "items \<noteq> []" by auto
    ultimately show ?thesis using True by (simp add: v)
  next
    case False
    then have "?bad = []" by (simp add: filter_empty_conv)
    then show ?thesis using False by (simp add: v)
  qed
qed

theorem validateData_array_witness:
  "validateData ''board'' (JArr [JObj [(''name'', JStr ''Jane'')], JNull, JStr ''x'', JArr []])
     = Inl (Error ''board contains 2 invalid items'') \<and>
   validateData ''board'' (JArr [JObj [(''name'', JStr ''Jane'')], JArr []]) = Inr True"
  using validateData_array [of "''board''" "[JObj [(''name'', JStr ''Jane'')], JNull, JStr ''x'', JArr []]"]
        validateData_array [of "''board''" "[JObj [(''name'', JStr ''Jane'')], JArr []]"]
  by (simp add: showNat.simps)

text \<open>
  C3, as the specification states it, fails: \<open>typeof\<close> of an array is \<open>'object'\<close>, so an
  element that is an array, which is not a mapping, passes.
\<close>

theorem validateData_array_counterexample:
  "\<not> isMapping (JArr [JNum 1, JNum 2]) \<and> validateData ''board'' (JArr [JArr [JNum 1, JNum 2]]) = Inr True"
  by (simp add: validateData_def)

section \<open>One sheet: fetch, normalize, validate, write\<close>

lemma normalizeData_isMapping: "isMapping row \<Longrightarrow> isMapping (normalizeData row)"
  by (cases row) (simp_all add: normalizeData_JObj)

lemma andThen_simps [simp]:
  "andThen (w, Inl e) f = (w, Inl e)"
  "andThen (w, Inr x) f = f x w"
  by (simp_all add: andThen_def)

lemma syncSheet_Synced:
  assumes "fetchJson (http_get env) (jsonUrl sc) = Some (Inr data)"
    and "raw = (if falsy data \<or> (isArray data \<and> length (elements data) = 0) then JArr [] else data)"
    and "enabled config validateDataOption \<Longrightarrow> validateData sheetName (normalizeData raw) = Inr True"
    and "writeYamlFile config env (normalizeData raw) (outputPath sc)
           (w\<lparr>requests := requests w @ [jsonUrl sc]\<rparr>) = (w', Inr True)"
  shows "syncSheet config env sheetName (Configured sc) w =
           Some (w', Inr (Synced (if isArray (normalizeData raw)
                                  then length (elements (normalizeData raw)) else 1)))"
proof -
  have f: "fetchSheetData env sc w = Some (w\<lparr>requests := requests w @ [jsonUrl sc]\<rparr>, Inr raw)"
    using assms(1,2) by (simp add: fetchSheetData_def Let_def)
  show ?thesis
  proof (cases "enabled config validateDataOption")
    case True
    with assms(3) have "validateData sheetName (normalizeData raw) = Inr True" by simp
    with True f assms(4) show ?thesis by (simp add: syncSheet_def)
  next
    case False
    with f assms(4) show ?thesis by (simp add: syncSheet_def)
  qed
qed

lemma normalizeData_falsy: "falsy data \<Longrightarrow> normalizeData data = data"
  by (cases data) simp_all

lemma validateData_empty: "validateData sheetName (normalizeData (JArr [])) = Inr True"
  by (simp add: validateData_def)

lemma length_normalizeData: "isArray data \<Longrightarrow> length (elements (normalizeData data)) = length (elements data)"
  by (cases data) simp_all

lemma isArray_normalizeData: "isArray (normalizeData data) = isArray data"
  by (cases data) (simp_all add: normalizeData_JObj)

text \<open>Evaluating the sample installation.\<close>

lemmas sample_defs =
  sampleConfig_def sampleEnv_def sampleWorld_def boardSheet_def eventsSheet_def boardRows_def
  sampleGet_def sampleYaml_def posix_dirname_def

lemmas fs_defs =
  writeYamlFile_def Let_def existsSync_def mkdirSync_def copyFileSync_def writeFileSync_def
  enabled_def


text \<open>
  C5. For an array whose elements are all mappings, \<open>validateData\<close> accepts the output of
  \<open>normalizeData\<close>, which is an array of as many mappings; and when such an array is what
  the sheet's URL delivers and the write succeeds, \<open>syncSheet\<close> reports as count the
  length of the array.
\<close>

theorem normalize_then_validate:
  assumes "\<forall>row\<in>set rows. isMapping row"
  shows "validateData sheetName (normalizeData (JArr rows)) = Inr True \<and>
         isArray (normalizeData (JArr rows)) \<and>
         length (elements (normalizeData (JArr rows))) = length rows \<and>
         (\<forall>row\<in>set (elements (normalizeData (JArr rows))). isMapping row) \<and>
         (\<forall>config env sc w w'.
            fetchJson (http_get env) (jsonUrl sc) = Some (Inr (JArr rows)) \<and>
            writeYamlFile config env (normalizeData (JArr rows)) (outputPath sc)
              (w\<lparr>requests := requests w @ [jsonUrl sc]\<rparr>) = (w', Inr True)
            \<longrightarrow> syncSheet config env sheetName (Configured sc) w = Some (w', Inr (Synced (length rows))))"
proof -
  have m: "\<forall>row\<in>set (map normalizeData rows). isMapping row"
    using assms by (simp add: normalizeData_isMapping)
  then have v: "validateData sheetName (normalizeData (JArr rows)) = Inr True"
    by (simp add: validateData_mappings)
  have s: "syncSheet config env sheetName (Configured sc) w = Some (w', Inr (Synced (length rows)))"
    if 1: "fetchJson (http_get env) (jsonUrl sc) = Some (Inr (JArr rows))"
    and 2: "writeYamlFile config env (normalizeData (JArr rows)) (outputPath sc)
              (w\<lparr>requests := requests w @ [jsonUrl sc]\<rparr>) = (w', Inr True)"
    for config env sc w w'
  proof -
    have raw: "JArr rows = (if falsy (JArr rows) \<or> (isArray (JArr rows) \<and> length (elements (JArr rows)) = 0)
                 then JArr [] else JArr rows)"
      by simp
    from syncSheet_Synced [OF 1 raw v 2] show ?thesis by simp
  qed
  show ?thesis using m v s by simp
qed

theorem normalize_then_validate_witness:
  "list_all isMapping [JObj [(''name'', JStr ''  Jane  ''), (''elected'', JStr ''true'')]] \<and>
   validateData ''board''
     (normalizeData (JArr [JObj [(''name'', JStr ''  Jane  ''), (''elected'', JStr ''true'')]]))
     = Inr True \<and>
   map_option snd (syncSheet sampleConfig sampleEnv ''board'' (Configured boardSheet) sampleWorld)
     = Some (Inr (Synced 1))"
proof -
  let ?rows = "[JObj [(''name'', JStr ''  Jane  ''), (''elected'', JStr ''true'')]]"
  let ?run = "writeYamlFile sampleConfig sampleEnv (normalizeData (JArr ?rows)) (outputPath boardSheet)
                (sampleWorld\<lparr>requests := requests sampleWorld @ [jsonUrl boardSheet]\<rparr>)"
  have h: "\<forall>row\<in>set ?rows. isMapping row" by simp
  have f: "fetchJson (http_get sampleEnv) (jsonUrl boardSheet) = Some (Inr (JArr ?rows))"
    by (simp add: fetchJson.simps sample_defs)
  have "snd ?run = Inr True"
    by (simp add: fs_defs sample_defs)
  then have w: "?run = (fst ?run, Inr True)" by (metis prod.collapse)
  from normalize_then_validate [OF h, of "''board''"] f w
  have "validateData ''board'' (normalizeData (JArr ?rows)) = Inr True"
    and "syncSheet sampleConfig sampleEnv ''board'' (Configured boardSheet) sampleWorld
           = Some (fst ?run, Inr (Synced (length ?rows)))"
    by blast+
  then show ?thesis by simp
qed

text \<open>
  C9. When the body parses to a falsy value or to the empty array, \<open>fetchSheetData\<close>
  hands on the empty array; with the write succeeding the sheet is reported as synced with
  count 0, whether validation is switched on or not. A falsy value that is not an array
  would not have passed \<open>validateData\<close> itself.
\<close>

theorem empty_response_syncs_nothing:
  assumes "fetchJson (http_get env) (jsonUrl sc) = Some (Inr data)"
    and "falsy data \<or> data = JArr []"
    and "writeYamlFile config env (JArr []) (outputPath sc)
           (w\<lparr>requests := requests w @ [jsonUrl sc]\<rparr>) = (w', Inr True)"
  shows "fetchSheetData env sc w = Some (w\<lparr>requests := requests w @ [jsonUrl sc]\<rparr>, Inr (JArr [])) \<and>
         syncSheet config env sheetName (Configured sc) w = Some (w', Inr (Synced 0)) \<and>
         (\<not> isArray data \<longrightarrow>
            validateData sheetName (normalizeData data) =
              Inl (Error (''Data for '' @ sheetName @ '' is not an array'')))"
proof -
  have raw: "JArr [] = (if falsy data \<or> (isArray data \<and> length (elements data) = 0) then JArr [] else data)"
    using assms(2) by auto
  have f: "fetchSheetData env sc w = Some (w\<lparr>requests := requests w @ [jsonUrl sc]\<rparr>, Inr (JArr []))"
    using assms(1,2) by (auto simp: fetchSheetData_def Let_def)
  have w: "writeYamlFile config env (normalizeData (JArr [])) (outputPath sc)
           (w\<lparr>requests := requests w @ [jsonUrl sc]\<rparr>) = (w', Inr True)"
    using assms(3) by simp
  have s: "syncSheet config env sheetName (Configured sc) w = Some (w', Inr (Synced 0))"
    using syncSheet_Synced [OF assms(1) raw validateData_empty w] by simp
  have v: "validateData sheetName (normalizeData data) =
              Inl (Error (''Data for '' @ sheetName @ '' is not an array''))" if "\<not> isArray data"
  proof -
    from that assms(2) have "falsy data" by auto
    then have "normalizeData data = data" by (rule normalizeData_falsy)
    with that show ?thesis by (simp add: validateData_def)
  qed
  from f s v show ?thesis by blast
qed

theorem empty_response_syncs_nothing_witness:
  "fetchJson (http_get nullEnv) (jsonUrl eventsSheet) = Some (Inr JNull) \<and>
   falsy JNull \<and>
   snd (writeYamlFile sampleConfig nullEnv (JArr []) (outputPath eventsSheet)
          (sampleWorld\<lparr>requests := requests sampleWorld @ [jsonUrl eventsSheet]\<rparr>)) = Inr True \<and>
   map_option snd (syncSheet sampleConfig nullEnv ''events'' (Configured eventsSheet) sampleWorld)
     = Some (Inr (Synced 0)) \<and>
   validateData ''events'' (normalizeData JNull) = Inl (Error ''Data for events is not an array'')"
proof -
  let ?run = "writeYamlFile sampleConfig nullEnv (JArr []) (outputPath eventsSheet)
                (sampleWorld\<lparr>requests := requests sampleWorld @ [jsonUrl eventsSheet]\<rparr>)"
  have f: "fetchJson (http_get nullEnv) (jsonUrl eventsSheet) = Some (Inr JNull)"
    by (simp add: fetchJson.simps sample_defs nullEnv_def nullGet_def)
  have h: "falsy JNull \<or> JNull = JArr []" by simp
  have s: "snd ?run = Inr True"
    by (simp add: fs_defs sample_defs nullEnv_def posix_ancestors.simps)
  then have w: "?run = (fst ?run, Inr True)" by (metis prod.collapse)
  from empty_response_syncs_nothing [OF f h w, of "''events''"] f s
  show ?thesis by simp
qed

text \<open>
  C10, as stated, fails for a falsy value that is not an array: \<open>null\<close> is replaced by
  the empty array before anything else, and the count reported is 0, not 1.
\<close>

theorem validation_skipped_counterexample:
  "\<not> enabled plainConfig validateDataOption \<and>
   fetchJson (http_get nullEnv) (jsonUrl boardSheet) = Some (Inr JNull) \<and>
   \<not> isArray JNull \<and>
   map_option snd (syncSheet plainConfig nullEnv ''board'' (Configured boardSheet) sampleWorld)
     = Some (Inr (Synced 0))"
  by (simp add: syncSheet_def fetchSheetData_def fetchJson.simps fs_defs sample_defs
      plainConfig_def nullEnv_def nullGet_def)

text \<open>
  C10, amended. With the \<open>validateData\<close> option falsy or absent nothing is validated: a
  body of any shape is normalized and written, and when the write succeeds the sheet is
  reported as synced, with the length of the array for an array, 0 for a falsy value that
  is not an array (it was replaced by the empty array), and 1 for any other value.
\<close>

theorem validation_skipped:
  assumes "\<not> enabled config validateDataOption"
    and "fetchJson (http_get env) (jsonUrl sc) = Some (Inr data)"
    and "writeYamlFile config env (normalizeData (if falsy data then JArr [] else data)) (outputPath sc)
           (w\<lparr>requests := requests w @ [jsonUrl sc]\<rparr>) = (w', Inr True)"
  shows "syncSheet config env sheetName (Configured sc) w =
           Some (w', Inr (Synced (if isArray data then length (elements data)
                                  else if falsy data then 0 else 1)))"
proof -
  let ?raw = "if falsy data then JArr [] else data"
  have raw: "?raw = (if falsy data \<or> (isArray data \<and> length (elements data) = 0) then JArr [] else data)"
    by (cases data) auto
  have v: "enabled config validateDataOption \<Longrightarrow> validateData sheetName (normalizeData ?raw) = Inr True"
    using assms(1) by simp
  have c: "(if isArray (normalizeData ?raw) then length (elements (normalizeData ?raw)) else 1)
           = (if isArray data then length (elements data) else if falsy data then 0 else 1)"
    by (cases data) (simp_all add: normalizeData_JObj)
  from syncSheet_Synced [OF assms(2) raw v assms(3)] show ?thesis by (simp only: c)
qed

theorem validation_skipped_witness:
  "\<not> enabled plainConfig validateDataOption \<and>
   fetchJson (http_get objectEnv) (jsonUrl boardSheet) = Some (Inr (JObj [(''title'', JStr '' PTSA '')])) \<and>
   snd (writeYamlFile plainConfig objectEnv
          (normalizeData (JObj [(''title'', JStr '' PTSA '')])) (outputPath boardSheet)
          (sampleWorld\<lparr>requests := requests sampleWorld @ [jsonUrl boardSheet]\<rparr>)) = Inr True \<and>
   map_option snd (syncSheet plainConfig objectEnv ''board'' (Configured boardSheet) sampleWorld)
     = Some (Inr (Synced 1))"
proof -
  let ?data = "JObj [(''title'', JStr '' PTSA '')]"
  let ?run = "writeYamlFile plainConfig objectEnv
          (normalizeData (if falsy ?data then JArr [] else ?data)) (outputPath boardSheet)
          (sampleWorld\<lparr>requests := requests sampleWorld @ [jsonUrl boardSheet]\<rparr>)"
  have h: "\<not> enabled plainConfig validateDataOption" by (simp add: enabled_def plainConfig_def)
  have f: "fetchJson (http_get objectEnv) (jsonUrl boardSheet) = Some (Inr ?data)"
    by (simp add: fetchJson.simps sample_defs objectEnv_def objectGet_def)
  have s: "snd ?run = Inr True"
    by (simp add: fs_defs sample_defs plainConfig_def objectEnv_def)
  then have w: "?run = (fst ?run, Inr True)" by (metis prod.collapse)
  from validation_skipped [OF h f w, of "''board''"] h f s
  show ?thesis by simp
qed

section \<open>The YAML writer: backup before overwrite\<close>

lemma andThen_Inr:
  "andThen r f = (w', Inr y) \<Longrightarrow> \<exists>w1 x. r = (w1, Inr x) \<and> f x w1 = (w', Inr y)"
  by (cases r) (auto simp: andThen_def split: sum.splits)

lemma mkdirSync_Inr:
  "mkdirSync env dir w = (w1, Inr u) \<Longrightarrow>
   files w1 = files w \<and> ops w1 = ops w @ [Mkdir dir] \<and> requests w1 = requests w \<and> stderr w1 = stderr w"
  by (auto simp: mkdirSync_def split: option.splits if_splits)

lemma copyFileSync_Inr:
  "copyFileSync env src dest w = (w2, Inr u) \<Longrightarrow>
   \<exists>content. files w src = Some content \<and> files w2 = (files w)(dest \<mapsto> content) \<and>
     ops w2 = ops w @ [CopyFile src dest] \<and> dirs w2 = dirs w"
  by (auto simp: copyFileSync_def split: option.splits if_splits)

lemma writeFileSync_Inr:
  "writeFileSync env file content w = (w3, Inr u) \<Longrightarrow>
   files w3 = (files w)(file \<mapsto> content) \<and> ops w3 = ops w @ [WriteFile file content]"
  by (auto simp: writeFileSync_def split: option.splits if_splits)

lemma writeYamlFile_Inr:
  assumes "writeYamlFile config env data outPath w = (w', Inr b)"
  shows "\<exists>w1 w2.
           (if \<not> existsSync w (path_dirname env (path_join env (cwd env) outPath))
            then mkdirSync env (path_dirname env (path_join env (cwd env) outPath)) w
            else (w, Inr ())) = (w1, Inr ()) \<and>
           (if existsSync w1 (path_join env (cwd env) outPath) \<and> enabled config backupBeforeSync
            then copyFileSync env (path_join env (cwd env) outPath)
                   (path_join env (cwd env) outPath @ ''.backup'') w1
            else (w1, Inr ())) = (w2, Inr ()) \<and>
           writeFileSync env (path_join env (cwd env) outPath) (stringify env data) w2 = (w', Inr ()) \<and>
           b = True"
proof -
  let ?full = "path_join env (cwd env) outPath"
  let ?dir = "path_dirname env ?full"
  let ?attempt = "andThen (if \<not> existsSync w ?dir then mkdirSync env ?dir w else (w, Inr ())) (\<lambda>_ w1.
            andThen (if existsSync w1 ?full \<and> enabled config backupBeforeSync
                     then copyFileSync env ?full (?full @ ''.backup'') w1 else (w1, Inr ())) (\<lambda>_ w2.
            andThen (writeFileSync env ?full (stringify env data) w2) (\<lambda>_ w3.
            (w3, Inr True))))"
  have w: "writeYamlFile config env data outPath w =
      (case ?attempt of
           (w', Inl err) \<Rightarrow> (w'\<lparr>stderr := stderr w' @ [ErrorWritingYaml (message err)]\<rparr>, Inl err)
         | (w', Inr written) \<Rightarrow> (w', Inr written))"
    by (simp add: writeYamlFile_def Let_def)
  from assms have a: "?attempt = (w', Inr b)"
    unfolding w by (cases ?attempt) (auto split: sum.splits)
  from andThen_Inr [OF a] obtain w1 where
    1: "(if \<not> existsSync w ?dir then mkdirSync env ?dir w else (w, Inr ())) = (w1, Inr ())"
    and a2: "andThen (if existsSync w1 ?full \<and> enabled config backupBeforeSync
                     then copyFileSync env ?full (?full @ ''.backup'') w1 else (w1, Inr ())) (\<lambda>_ w2.
            andThen (writeFileSync env ?full (stringify env data) w2) (\<lambda>_ w3.
            (w3, Inr True))) = (w', Inr b)"
    by auto
  from andThen_Inr [OF a2] obtain w2 where
    2: "(if existsSync w1 ?full \<and> enabled config backupBeforeSync
         then copyFileSync env ?full (?full @ ''.backup'') w1 else (w1, Inr ())) = (w2, Inr ())"
    and a3: "andThen (writeFileSync env ?full (stringify env data) w2) (\<lambda>_ w3.
            (w3, Inr True)) = (w', Inr b)"
    by auto
  from andThen_Inr [OF a3] have 3: "writeFileSync env ?full (stringify env data) w2 = (w', Inr ())"
    and d: "b = True"
    by auto
  from 1 2 3 d show ?thesis by blast
qed

lemma backup_differs: "p @ ''.backup'' \<noteq> p"
proof
  assume "p @ ''.backup'' = p"
  then have "length (p @ ''.backup'') = length p" by simp
  then show False by simp
qed

lemma backup_made:
  assumes "enabled config backupBeforeSync"
    and "files w (path_join env (cwd env) outPath) = Some old"
    and "writeYamlFile config env data outPath w = (w', Inr True)"
  shows "files w' (path_join env (cwd env) outPath @ ''.backup'') = Some old \<and>
         files w' (path_join env (cwd env) outPath) = Some (stringify env data) \<and>
         ops w' = ops w @
           (if existsSync w (path_dirname env (path_join env (cwd env) outPath)) then []
            else [Mkdir (path_dirname env (path_join env (cwd env) outPath))]) @
           [CopyFile (path_join env (cwd env) outPath) (path_join env (cwd env) outPath @ ''.backup''),
            WriteFile (path_join env (cwd env) outPath) (stringify env data)]"
proof -
  let ?full = "path_join env (cwd env) outPath"
  let ?dir = "path_dirname env ?full"
  from writeYamlFile_Inr [OF assms(3)] obtain w1 w2 where
    1: "(if \<not> existsSync w ?dir then mkdirSync env ?dir w else (w, Inr ())) = (w1, Inr ())"
    and 2: "(if existsSync w1 ?full \<and> enabled config backupBeforeSync
         then copyFileSync env ?full (?full @ ''.backup'') w1 else (w1, Inr ())) = (w2, Inr ())"
    and 3: "writeFileSync env ?full (stringify env data) w2 = (w', Inr ())"
    by blast
  have f1: "files w1 = files w"
    and o1: "ops w1 = ops w @ (if existsSync w ?dir then [] else [Mkdir ?dir])"
    using 1 mkdirSync_Inr [of env ?dir w w1 "()"] by (auto split: if_splits)
  from f1 assms(2) have "existsSync w1 ?full" by (auto simp: existsSync_def)
  with 2 assms(1) have c: "copyFileSync env ?full (?full @ ''.backup'') w1 = (w2, Inr ())" by simp
  from copyFileSync_Inr [OF c] f1 assms(2)
  have f2: "files w2 = (files w)(?full @ ''.backup'' \<mapsto> old)"
    and o2: "ops w2 = ops w1 @ [CopyFile ?full (?full @ ''.backup'')]"
    by auto
  from writeFileSync_Inr [OF 3]
  have f3: "files w' = (files w2)(?full \<mapsto> stringify env data)"
    and o3: "ops w' = ops w2 @ [WriteFile ?full (stringify env data)]"
    by auto
  show ?thesis using f2 f3 o1 o2 o3 backup_differs [of ?full] by simp
qed

lemma mkdirSync_files: "mkdirSync env dir w = (w1, r) \<Longrightarrow> files w1 = files w"
  by (auto simp: mkdirSync_def split: option.splits if_splits)

lemma copyFileSync_files:
  "copyFileSync env src dest w = (w2, r) \<Longrightarrow> p \<noteq> dest \<Longrightarrow> files w2 p = files w p"
  by (auto simp: copyFileSync_def split: option.splits if_splits)

lemma writeFileSync_Inl: "writeFileSync env file content w = (w3, Inl e) \<Longrightarrow> w3 = w"
  by (auto simp: writeFileSync_def split: option.splits if_splits)

lemma writeYamlFile_Inl:
  assumes "writeYamlFile config env data outPath w = (w', Inl e)"
  shows "files w' (path_join env (cwd env) outPath) = files w (path_join env (cwd env) outPath)"
proof -
  let ?full = "path_join env (cwd env) outPath"
  let ?dir = "path_dirname env ?full"
  let ?s1 = "if \<not> existsSync w ?dir then mkdirSync env ?dir w else (w, Inr ())"
  obtain w1 r1 where s1: "?s1 = (w1, r1)" by (cases ?s1)
  have f1: "files w1 = files w" using s1 mkdirSync_files by (auto split: if_splits)
  let ?s2 = "if existsSync w1 ?full \<and> enabled config backupBeforeSync
             then copyFileSync env ?full (?full @ ''.backup'') w1 else (w1, Inr ())"
  obtain w2 r2 where s2: "?s2 = (w2, r2)" by (cases ?s2)
  have "?full \<noteq> ?full @ ''.backup''" using backup_differs [of ?full] by simp
  then have f2: "files w2 ?full = files w1 ?full"
    using s2 copyFileSync_files [of env ?full "?full @ ''.backup''" w1 w2 r2 ?full]
    by (auto split: if_splits)
  let ?s3 = "writeFileSync env ?full (stringify env data) w2"
  obtain w3 r3 where s3: "?s3 = (w3, r3)" by (cases ?s3)
  have run: "writeYamlFile config env data outPath w =
      (case andThen ?s1 (\<lambda>_ w1.
            andThen (if existsSync w1 ?full \<and> enabled config backupBeforeSync
                     then copyFileSync env ?full (?full @ ''.backup'') w1 else (w1, Inr ())) (\<lambda>_ w2.
            andThen (writeFileSync env ?full (stringify env data) w2) (\<lambda>_ w3.
            (w3, Inr True)))) of
           (w', Inl err) \<Rightarrow> (w'\<lparr>stderr := stderr w' @ [ErrorWritingYaml (message err)]\<rparr>, Inl err)
         | (w', Inr written) \<Rightarrow> (w', Inr written))"
    by (simp add: writeYamlFile_def Let_def)
  show ?thesis
  proof (cases r1)
    case (Inl e1)
    with assms s1 f1 show ?thesis unfolding run by auto
  next
    case r1: (Inr u1)
    show ?thesis
    proof (cases r2)
      case (Inl e2)
      with assms s1 r1 s2 f1 f2 show ?thesis unfolding run by auto
    next
      case r2: (Inr u2)
      show ?thesis
      proof (cases r3)
        case (Inl e3)
        with s3 have "w3 = w2" using writeFileSync_Inl by blast
        with assms s1 r1 s2 r2 s3 Inl f1 f2 show ?thesis unfolding run by auto
      next
        case (Inr u3)
        with assms s1 r1 s2 r2 s3 show ?thesis unfolding run by auto
      qed
    qed
  qed
qed

text \<open>
  C8. With \<open>backupBeforeSync\<close> enabled and a file at the resolved path, a call of
  \<open>writeYamlFile\<close> either returns \<open>true\<close>, and then it has copied the file to
  \<open>path.backup\<close> and after that written the path (the backup holds the content the path
  had before the call, the path holds the new YAML text), or it throws, and then the path
  still holds its old content.
\<close>

theorem backup_before_overwrite:
  assumes "enabled config backupBeforeSync"
    and "files w (path_join env (cwd env) outPath) = Some old"
    and "writeYamlFile config env data outPath w = (w', r)"
  shows "(r = Inr True \<and>
          files w' (path_join env (cwd env) outPath @ ''.backup'') = Some old \<and>
          files w' (path_join env (cwd env) outPath) = Some (stringify env data) \<and>
          ops w' = ops w @
            (if existsSync w (path_dirname env (path_join env (cwd env) outPath)) then []
             else [Mkdir (path_dirname env (path_join env (cwd env) outPath))]) @
            [CopyFile (path_join env (cwd env) outPath) (path_join env (cwd env) outPath @ ''.backup''),
             WriteFile (path_join env (cwd env) outPath) (stringify env data)]) \<or>
         ((\<exists>e. r = Inl e) \<and> files w' (path_join env (cwd env) outPath) = Some old)"
proof (cases r)
  case (Inl e)
  with assms(3) have "writeYamlFile config env data outPath w = (w', Inl e)" by simp
  from writeYamlFile_Inl [OF this] assms(2) Inl show ?thesis by simp
next
  case (Inr b)
  with assms(3) have run: "writeYamlFile config env data outPath w = (w', Inr b)" by simp
  from writeYamlFile_Inr [OF run] have b: "b = True" by blast
  with run have "writeYamlFile config env data outPath w = (w', Inr True)" by simp
  from backup_made [OF assms(1,2) this] Inr b show ?thesis by simp
qed

theorem backup_before_overwrite_witness:
  "enabled sampleConfig backupBeforeSync \<and>
   files sampleWorld ''/site/data/board/members.yaml'' = Some ''# 0 record(s)'' \<and>
   snd (writeYamlFile sampleConfig sampleEnv (normalizeData boardRows) ''data/board/members.yaml''
          sampleWorld) = Inr True \<and>
   files (fst (writeYamlFile sampleConfig sampleEnv (normalizeData boardRows)
                 ''data/board/members.yaml'' sampleWorld))
     ''/site/data/board/members.yaml.backup'' = Some ''# 0 record(s)'' \<and>
   files (fst (writeYamlFile sampleConfig sampleEnv (normalizeData boardRows)
                 ''data/board/members.yaml'' sampleWorld))
     ''/site/data/board/members.yaml'' = Some ''# 1 record(s)''"
proof -
  let ?run = "writeYamlFile sampleConfig sampleEnv (normalizeData boardRows)
                ''data/board/members.yaml'' sampleWorld"
  have h1: "enabled sampleConfig backupBeforeSync"
    by (simp add: enabled_def sampleConfig_def)
  have h2: "files sampleWorld (path_join sampleEnv (cwd sampleEnv) ''data/board/members.yaml'')
              = Some ''# 0 record(s)''"
    by (simp add: sampleWorld_def sampleEnv_def)
  have s: "snd ?run = Inr True"
    by (simp add: fs_defs sample_defs)
  have h3: "?run = (fst ?run, snd ?run)" by simp
  from backup_before_overwrite [OF h1 h2 h3] h1 h2 s
  show ?thesis
    by (simp add: sampleEnv_def sampleYaml_def boardRows_def showNat.simps)
qed

section \<open>The orchestrator\<close>



lemma syncSheet_never_throws:
  "syncSheet config env sheetName (Configured sc) w = Some (w1, r) \<Longrightarrow> \<exists>result. r = Inr result"
  unfolding syncSheet_def Let_def by (auto split: option.splits prod.splits sum.splits)












lemma unknown_target_throws:
  assumes "target \<noteq> []" and "sheetNamed config target = Undefined"
  shows "main config env (Some target) w =
           Some (w, Inl (TypeError ''Cannot read properties of undefined (reading 'jsonUrl')'')) \<and>
         runScript config env (Some target) w =
           Some (w\<lparr>stderr := stderr w @
                   [UnexpectedError (TypeError ''Cannot read properties of undefined (reading 'jsonUrl')'')]\<rparr>, 1)"
  using assms by (simp add: main_def runScript_def sheetsToSync_def)

lemma inherited_target_exits:
  assumes "target \<noteq> []" and "sheetNamed config target = Inherited"
  shows "main config env (Some target) w =
           Some (w\<lparr>stderr := stderr w @ [UrlNotConfigured target, PleaseUpdateConfig]\<rparr>, Inr 1)"
  using assms by (simp add: main_def sheetsToSync_def)

lemma sample_run_exit:
  "map_option snd (runScript sampleConfig sampleEnv None sampleWorld) = Some 1"
  by code_simp

text \<open>
  C6. At the sample configuration with the unknown name \<open>nosuch\<close> on the command line the
  guard that prints \<open>Sheet "nosuch" not found in config\<close> does not fire, because the
  one-entry object built for the name has one key. The URL check then reads \<open>jsonUrl\<close> of
  \<open>undefined\<close>; the \<open>TypeError\<close> leaves \<open>main\<close>, and the handler at the end of the script
  prints it as an unexpected error and exits with code 1. Nothing was fetched or written,
  and no line names the sheet.
\<close>

theorem unknown_sheet_unexpected_error:
  "map_of (sheets sampleConfig) ''nosuch'' = None \<and>
   main sampleConfig sampleEnv (Some ''nosuch'') sampleWorld =
     Some (sampleWorld, Inl (TypeError ''Cannot read properties of undefined (reading 'jsonUrl')'')) \<and>
   runScript sampleConfig sampleEnv (Some ''nosuch'') sampleWorld =
     Some (sampleWorld\<lparr>stderr :=
             [UnexpectedError (TypeError ''Cannot read properties of undefined (reading 'jsonUrl')'')]\<rparr>, 1)"
proof -
  have a: "map_of (sheets sampleConfig) ''nosuch'' = None" by (simp add: sampleConfig_def)
  have u: "sheetNamed sampleConfig ''nosuch'' = Undefined"
    by (simp add: sheetNamed_def a inheritedNames_def)
  have s: "stderr sampleWorld = []" by (simp add: sampleWorld_def)
  from unknown_target_throws [OF _ u, of sampleEnv sampleWorld] a s show ?thesis by simp
qed

end
